theory Spec2Isabelle
  imports Main
begin

section \<open>Battleship puzzle validator: embedding of Battleship_puzzle.py\<close>

text \<open>
  The Python module checks a proposed Battleship solution: a fleet of targets is painted
  onto a grid of water, and the grid is then checked against the fleet and the clues.
  Python integers are unbounded, so rows, columns and lengths are \<^typ>\<open>int\<close>.
  Every list access of the source can raise \<open>IndexError\<close>; the model returns it as
  a value (\<open>Inl IndexError\<close>), so that "does not crash" is a statement to prove.
\<close>

subsection \<open>Enumerations and cells\<close>

datatype Pieza = W | C | L | R | T | B | M

definition es_barco :: "Pieza \<Rightarrow> bool" where
  "es_barco p = (p \<noteq> W)"

datatype Direccion = VERTICAL | HORIZONTAL

record Celda =
  fila :: int
  columna :: int
  tipo :: Pieza

text \<open>
  \<open>Objetivo\<close> is the base class of \<open>Barco\<close> and \<open>Submarino\<close>. Its constructor
  accepts any list of cells; the validators only read \<open>partes\<close>.
\<close>

record Objetivo =
  ubicacion :: "int \<times> int"
  partes :: "Celda list"

subsection \<open>Python list indexing\<close>

datatype error = IndexError

text \<open>
  \<open>xs[i]\<close> in Python: an index in \<open>[0, n)\<close> is used as it is, an index in
  \<open>[-n, 0)\<close> counts from the end, anything else raises \<open>IndexError\<close>.
\<close>

definition py_indice :: "nat \<Rightarrow> int \<Rightarrow> error + nat" where
  "py_indice n i =
     (if 0 \<le> i \<and> i < int n then Inr (nat i)
      else if - int n \<le> i \<and> i < 0 then Inr (nat (int n + i))
      else Inl IndexError)"

definition py_get :: "'a list \<Rightarrow> int \<Rightarrow> error + 'a" where
  "py_get xs i = (case py_indice (length xs) i of Inl e \<Rightarrow> Inl e | Inr k \<Rightarrow> Inr (xs ! k))"

definition py_set :: "'a list \<Rightarrow> int \<Rightarrow> 'a \<Rightarrow> error + 'a list" where
  "py_set xs i v = (case py_indice (length xs) i of Inl e \<Rightarrow> Inl e | Inr k \<Rightarrow> Inr (xs[k := v]))"

text \<open>\<open>matriz[f][c]\<close>: the row is fetched first, then the cell.\<close>

definition leer :: "Pieza list list \<Rightarrow> int \<Rightarrow> int \<Rightarrow> error + Pieza" where
  "leer m f c = (case py_get m f of Inl e \<Rightarrow> Inl e | Inr fila_f \<Rightarrow> py_get fila_f c)"

text \<open>
  \<open>matriz[f][c] = v\<close>: the row object is fetched and updated in place. The rows are
  built by a list comprehension, so they are distinct objects and updating one row leaves
  the others alone; the model writes the updated row back at the same index.
\<close>

definition asignar :: "Pieza list list \<Rightarrow> int \<Rightarrow> int \<Rightarrow> Pieza \<Rightarrow> error + Pieza list list" where
  "asignar m f c v =
     (case py_get m f of
        Inl e \<Rightarrow> Inl e
      | Inr fila_f \<Rightarrow>
          (case py_set fila_f c v of
             Inl e \<Rightarrow> Inl e
           | Inr fila_nueva \<Rightarrow> py_set m f fila_nueva))"

subsection \<open>Ship geometry: \<open>Barco.construir_partes_barco\<close> and \<open>Submarino\<close>\<close>

text \<open>
  \<open>partes = [None] * longitud\<close> is a list of empty slots (\<open>None\<close>), filled by index.
  The loop \<open>for i in range(1, longitud - 1)\<close> runs over \<open>[1..longitud - 2]\<close>.
\<close>

fun bucle_medios :: "(int \<Rightarrow> Celda) \<Rightarrow> int list \<Rightarrow> Celda option list \<Rightarrow> error + Celda option list" where
  "bucle_medios mk [] ps = Inr ps"
| "bucle_medios mk (i # resto) ps =
     (case py_set ps i (Some (mk i)) of
        Inl e \<Rightarrow> Inl e
      | Inr ps' \<Rightarrow> bucle_medios mk resto ps')"

definition construir_partes_barco ::
    "int \<Rightarrow> Direccion \<Rightarrow> int \<times> int \<Rightarrow> error + Celda option list" where
  "construir_partes_barco longitud direccion ubic =
     (let ps = replicate (nat longitud) None;
          f_ini = fst ubic;
          c_ini = snd ubic
      in case direccion of
           VERTICAL \<Rightarrow>
             (case py_set ps 0 (Some \<lparr>fila = f_ini, columna = c_ini, tipo = T\<rparr>) of
                Inl e \<Rightarrow> Inl e
              | Inr ps1 \<Rightarrow>
                  (case py_set ps1 (- 1)
                          (Some \<lparr>fila = f_ini + longitud - 1, columna = c_ini, tipo = B\<rparr>) of
                     Inl e \<Rightarrow> Inl e
                   | Inr ps2 \<Rightarrow>
                       bucle_medios (\<lambda>i. \<lparr>fila = f_ini + i, columna = c_ini, tipo = M\<rparr>)
                         [1..longitud - 2] ps2))
         | HORIZONTAL \<Rightarrow>
             (case py_set ps 0 (Some \<lparr>fila = f_ini, columna = c_ini, tipo = L\<rparr>) of
                Inl e \<Rightarrow> Inl e
              | Inr ps1 \<Rightarrow>
                  (case py_set ps1 (- 1)
                          (Some \<lparr>fila = f_ini, columna = c_ini + longitud - 1, tipo = R\<rparr>) of
                     Inl e \<Rightarrow> Inl e
                   | Inr ps2 \<Rightarrow>
                       bucle_medios (\<lambda>i. \<lparr>fila = f_ini, columna = c_ini + i, tipo = M\<rparr>)
                         [1..longitud - 2] ps2)))"

definition Submarino_init :: "int \<times> int \<Rightarrow> Objetivo" where
  "Submarino_init ubic =
     \<lparr>ubicacion = ubic,
      partes = [\<lparr>fila = fst ubic, columna = snd ubic, tipo = C\<rparr>]\<rparr>"

subsection \<open>The board: \<open>Tablero\<close> and \<open>construir_matriz\<close>\<close>

record Tablero =
  tamano_tablero :: "int \<times> int"
  flota :: "Objetivo list"
  pistas :: "(int \<times> int \<times> Pieza) list"
  pistas_filas :: "int list"
  pistas_cols :: "int list"
  matriz :: "Pieza list list"

text \<open>The test \<open>0 <= f < filas and 0 <= c < cols\<close> that the source repeats.\<close>

definition dentro :: "int \<Rightarrow> int \<Rightarrow> int \<Rightarrow> int \<Rightarrow> bool" where
  "dentro filas cols f c = (0 \<le> f \<and> f < filas \<and> 0 \<le> c \<and> c < cols)"

fun pintar_partes :: "int \<Rightarrow> int \<Rightarrow> Celda list \<Rightarrow> Pieza list list \<Rightarrow> error + Pieza list list" where
  "pintar_partes filas cols [] m = Inr m"
| "pintar_partes filas cols (celda # resto) m =
     (if dentro filas cols (fila celda) (columna celda)
      then (case asignar m (fila celda) (columna celda) (tipo celda) of
              Inl e \<Rightarrow> Inl e
            | Inr m' \<Rightarrow> pintar_partes filas cols resto m')
      else pintar_partes filas cols resto m)"

fun pintar_flota :: "int \<Rightarrow> int \<Rightarrow> Objetivo list \<Rightarrow> Pieza list list \<Rightarrow> error + Pieza list list" where
  "pintar_flota filas cols [] m = Inr m"
| "pintar_flota filas cols (obj # resto) m =
     (case pintar_partes filas cols (partes obj) m of
        Inl e \<Rightarrow> Inl e
      | Inr m' \<Rightarrow> pintar_flota filas cols resto m')"

text \<open>\<open>range(n)\<close> is empty for \<open>n \<le> 0\<close>, hence \<open>nat\<close>.\<close>

definition construir_matriz :: "int \<times> int \<Rightarrow> Objetivo list \<Rightarrow> error + Pieza list list" where
  "construir_matriz tam fl =
     (let filas = fst tam; cols = snd tam
      in pintar_flota filas cols fl (replicate (nat filas) (replicate (nat cols) W)))"

definition Tablero_init ::
    "int \<Rightarrow> int \<Rightarrow> Objetivo list \<Rightarrow> (int \<times> int \<times> Pieza) list \<Rightarrow> int list \<Rightarrow> int list
     \<Rightarrow> error + Tablero" where
  "Tablero_init nFilas nColumnas fl ps pf pc =
     (case construir_matriz (nFilas, nColumnas) fl of
        Inl e \<Rightarrow> Inl e
      | Inr m \<Rightarrow>
          Inr \<lparr>tamano_tablero = (nFilas, nColumnas), flota = fl, pistas = ps,
               pistas_filas = pf, pistas_cols = pc, matriz = m\<rparr>)"

subsection \<open>Validators of one target\<close>

text \<open>
  The validators that read the grid return, next to their result, the list of positions
  at which \<open>matriz[f][c]\<close> was evaluated, in order. The result is what the Python
  function returns (or raises); the list is there to state which positions are read.
\<close>

type_synonym 'a con_lecturas = "(int \<times> int) list \<times> (error + 'a)"

fun limites_bucle :: "int \<Rightarrow> int \<Rightarrow> Celda list \<Rightarrow> bool" where
  "limites_bucle filas cols [] = True"
| "limites_bucle filas cols (parte # resto) =
     (if \<not> dentro filas cols (fila parte) (columna parte) then False
      else limites_bucle filas cols resto)"

definition validar_limites :: "Objetivo \<Rightarrow> Tablero \<Rightarrow> bool" where
  "validar_limites self tab =
     limites_bucle (fst (tamano_tablero tab)) (snd (tamano_tablero tab)) (partes self)"

fun integridad_bucle :: "int \<Rightarrow> int \<Rightarrow> Pieza list list \<Rightarrow> Celda list \<Rightarrow> bool con_lecturas" where
  "integridad_bucle filas cols m [] = ([], Inr True)"
| "integridad_bucle filas cols m (parte # resto) =
     (if \<not> dentro filas cols (fila parte) (columna parte) then ([], Inr False)
      else (case leer m (fila parte) (columna parte) of
              Inl e \<Rightarrow> ([(fila parte, columna parte)], Inl e)
            | Inr v \<Rightarrow>
                if v \<noteq> tipo parte then ([(fila parte, columna parte)], Inr False)
                else (case integridad_bucle filas cols m resto of
                        (ls, r) \<Rightarrow> ((fila parte, columna parte) # ls, r))))"

definition integridad_lecturas :: "Objetivo \<Rightarrow> Tablero \<Rightarrow> bool con_lecturas" where
  "integridad_lecturas self tab =
     integridad_bucle (fst (tamano_tablero tab)) (snd (tamano_tablero tab)) (matriz tab)
       (partes self)"

definition validar_integridad :: "Objetivo \<Rightarrow> Tablero \<Rightarrow> error + bool" where
  "validar_integridad self tab = snd (integridad_lecturas self tab)"

definition deltas :: "(int \<times> int) list" where
  "deltas = [(- 1, - 1), (- 1, 0), (- 1, 1),
             (0, - 1),             (0, 1),
             (1, - 1),   (1, 0),   (1, 1)]"

text \<open>
  The inner loop over \<open>deltas\<close> for one part: \<open>Inr False\<close> is the \<open>return False\<close>,
  \<open>Inr True\<close> means that the loop ran to its end.
\<close>

fun vecinos_bucle ::
    "int \<Rightarrow> int \<Rightarrow> Pieza list list \<Rightarrow> (int \<times> int) set \<Rightarrow> Celda \<Rightarrow> (int \<times> int) list
     \<Rightarrow> bool con_lecturas" where
  "vecinos_bucle filas cols m mis parte [] = ([], Inr True)"
| "vecinos_bucle filas cols m mis parte (d # resto) =
     (let vecino_f = fila parte + fst d; vecino_c = columna parte + snd d
      in if dentro filas cols vecino_f vecino_c then
           (if (vecino_f, vecino_c) \<notin> mis then
              (case leer m vecino_f vecino_c of
                 Inl e \<Rightarrow> ([(vecino_f, vecino_c)], Inl e)
               | Inr v \<Rightarrow>
                   if v \<noteq> W then ([(vecino_f, vecino_c)], Inr False)
                   else (case vecinos_bucle filas cols m mis parte resto of
                           (ls, r) \<Rightarrow> ((vecino_f, vecino_c) # ls, r)))
            else vecinos_bucle filas cols m mis parte resto)
         else vecinos_bucle filas cols m mis parte resto)"

fun espaciado_bucle ::
    "int \<Rightarrow> int \<Rightarrow> Pieza list list \<Rightarrow> (int \<times> int) set \<Rightarrow> Celda list \<Rightarrow> bool con_lecturas" where
  "espaciado_bucle filas cols m mis [] = ([], Inr True)"
| "espaciado_bucle filas cols m mis (parte # resto) =
     (if \<not> dentro filas cols (fila parte) (columna parte)
      then espaciado_bucle filas cols m mis resto
      else (case vecinos_bucle filas cols m mis parte deltas of
              (ls, Inr True) \<Rightarrow>
                (case espaciado_bucle filas cols m mis resto of
                   (ls', r) \<Rightarrow> (ls @ ls', r))
            | (ls, r) \<Rightarrow> (ls, r)))"

definition mis_coordenadas :: "Objetivo \<Rightarrow> (int \<times> int) set" where
  "mis_coordenadas self = set (map (\<lambda>p. (fila p, columna p)) (partes self))"

definition espaciado_lecturas :: "Objetivo \<Rightarrow> Tablero \<Rightarrow> bool con_lecturas" where
  "espaciado_lecturas self tab =
     espaciado_bucle (fst (tamano_tablero tab)) (snd (tamano_tablero tab)) (matriz tab)
       (mis_coordenadas self) (partes self)"

definition validar_espaciado :: "Objetivo \<Rightarrow> Tablero \<Rightarrow> error + bool" where
  "validar_espaciado self tab = snd (espaciado_lecturas self tab)"

definition validar_restricciones :: "Objetivo \<Rightarrow> Tablero \<Rightarrow> error + bool" where
  "validar_restricciones self tab =
     (if \<not> validar_limites self tab then Inr False
      else (case validar_integridad self tab of
              Inl e \<Rightarrow> Inl e
            | Inr integro \<Rightarrow>
                if \<not> integro then Inr False
                else (case validar_espaciado self tab of
                        Inl e \<Rightarrow> Inl e
                      | Inr espaciado \<Rightarrow> if \<not> espaciado then Inr False else Inr True)))"

subsection \<open>Validators of the board\<close>

text \<open>
  \<open>[barco for barco in self.flota if not barco.validar_restricciones(self)]\<close>: every
  target of the fleet is tested, in order; an exception in one test ends the whole call.
\<close>

fun invalidos_bucle :: "Tablero \<Rightarrow> Objetivo list \<Rightarrow> error + Objetivo list" where
  "invalidos_bucle tab [] = Inr []"
| "invalidos_bucle tab (barco # resto) =
     (case validar_restricciones barco tab of
        Inl e \<Rightarrow> Inl e
      | Inr valido \<Rightarrow>
          (case invalidos_bucle tab resto of
             Inl e \<Rightarrow> Inl e
           | Inr malos \<Rightarrow> Inr (if \<not> valido then barco # malos else malos)))"

definition obtener_barcos_invalidos :: "Tablero \<Rightarrow> error + Objetivo list" where
  "obtener_barcos_invalidos tab = invalidos_bucle tab (flota tab)"

text \<open>
  \<open>sum(1 for ... if self.matriz[f][c].es_barco())\<close> over a list of positions: the cells
  of one row, or of one column.
\<close>

fun contar :: "Pieza list list \<Rightarrow> (int \<times> int) list \<Rightarrow> error + int" where
  "contar m [] = Inr 0"
| "contar m (p # resto) =
     (case leer m (fst p) (snd p) of
        Inl e \<Rightarrow> Inl e
      | Inr v \<Rightarrow>
          (case contar m resto of
             Inl e \<Rightarrow> Inl e
           | Inr n \<Rightarrow> Inr ((if es_barco v then 1 else 0) + n)))"

fun cuentas_filas :: "Pieza list list \<Rightarrow> int \<Rightarrow> int list \<Rightarrow> int list \<Rightarrow> error + bool" where
  "cuentas_filas m cols pf [] = Inr True"
| "cuentas_filas m cols pf (f # resto) =
     (case contar m (map (\<lambda>c. (f, c)) [0..cols - 1]) of
        Inl e \<Rightarrow> Inl e
      | Inr suma_actual \<Rightarrow>
          (case py_get pf f of
             Inl e \<Rightarrow> Inl e
           | Inr pista \<Rightarrow>
               if suma_actual \<noteq> pista then Inr False
               else cuentas_filas m cols pf resto))"

fun cuentas_cols :: "Pieza list list \<Rightarrow> int \<Rightarrow> int list \<Rightarrow> int list \<Rightarrow> error + bool" where
  "cuentas_cols m filas pc [] = Inr True"
| "cuentas_cols m filas pc (c # resto) =
     (case contar m (map (\<lambda>f. (f, c)) [0..filas - 1]) of
        Inl e \<Rightarrow> Inl e
      | Inr suma_actual \<Rightarrow>
          (case py_get pc c of
             Inl e \<Rightarrow> Inl e
           | Inr pista \<Rightarrow>
               if suma_actual \<noteq> pista then Inr False
               else cuentas_cols m filas pc resto))"

definition validar_cuentas :: "Tablero \<Rightarrow> error + bool" where
  "validar_cuentas tab =
     (let filas = fst (tamano_tablero tab); cols = snd (tamano_tablero tab)
      in case cuentas_filas (matriz tab) cols (pistas_filas tab) [0..filas - 1] of
           Inl e \<Rightarrow> Inl e
         | Inr filas_bien \<Rightarrow>
             if \<not> filas_bien then Inr False
             else cuentas_cols (matriz tab) filas (pistas_cols tab) [0..cols - 1])"




subsection \<open>Definitions used to state the properties\<close>

text \<open>
  A matrix has the shape of the board: \<open>filas\<close> rows of \<open>cols\<close> cells each
  (none when the dimension is not positive).
\<close>

definition bien_formada :: "int \<Rightarrow> int \<Rightarrow> Pieza list list \<Rightarrow> bool" where
  "bien_formada filas cols m =
     (length m = nat filas \<and> (\<forall>fila_f \<in> set m. length fila_f = nat cols))"

text \<open>
  The cells of a list that claim position \<open>(f, c)\<close>, in order, and the kind that the
  last of them declares, Water when there is none.
\<close>

definition reclaman :: "Celda list \<Rightarrow> int \<Rightarrow> int \<Rightarrow> Celda list" where
  "reclaman cs f c = filter (\<lambda>x. fila x = f \<and> columna x = c) cs"

definition ultima_pintada :: "Celda list \<Rightarrow> int \<Rightarrow> int \<Rightarrow> Pieza" where
  "ultima_pintada cs f c = (if reclaman cs f c = [] then W else tipo (last (reclaman cs f c)))"

text \<open>
  All declared cells of a fleet, in fleet order and then in part order, and a target
  stripped of its cells outside the board.
\<close>

definition celdas_flota :: "Objetivo list \<Rightarrow> Celda list" where
  "celdas_flota fl = concat (map partes fl)"

definition solo_dentro :: "int \<Rightarrow> int \<Rightarrow> Objetivo \<Rightarrow> Objetivo" where
  "solo_dentro filas cols obj =
     obj\<lparr>partes := filter (\<lambda>p. dentro filas cols (fila p) (columna p)) (partes obj)\<rparr>"

text \<open>
  The grid holds at the position of a cell the kind that the cell declares; and the
  condition that the spacing check puts on the neighbour of a part at offset \<open>d\<close>.
\<close>

definition concuerda :: "Pieza list list \<Rightarrow> Celda \<Rightarrow> bool" where
  "concuerda m p = (m ! nat (fila p) ! nat (columna p) = tipo p)"

definition vecino_libre ::
    "int \<Rightarrow> int \<Rightarrow> Pieza list list \<Rightarrow> (int \<times> int) set \<Rightarrow> Celda \<Rightarrow> int \<times> int \<Rightarrow> bool" where
  "vecino_libre filas cols m mis p d =
     (dentro filas cols (fila p + fst d) (columna p + snd d) \<and>
      (fila p + fst d, columna p + snd d) \<notin> mis \<longrightarrow>
      m ! nat (fila p + fst d) ! nat (columna p + snd d) = W)"

subsection \<open>Example boards\<close>

text \<open>
  A board for the examples: 2 x 2, with one submarine at (0, 0), the end-to-end scenario
  of the specification.
\<close>

definition tablero_2x2 :: Tablero where
  "tablero_2x2 =
     \<lparr>tamano_tablero = (2, 2), flota = [Submarino_init (0, 0)], pistas = [],
      pistas_filas = [1, 0], pistas_cols = [1, 0], matriz = [[C, W], [W, W]]\<rparr>"





section \<open>Properties\<close>

subsection \<open>List access and the shape of the matrix\<close>

lemma py_get_dentro: "0 \<le> i \<Longrightarrow> i < int (length xs) \<Longrightarrow> py_get xs i = Inr (xs ! nat i)"
  by (simp add: py_get_def py_indice_def)

lemma py_set_dentro: "0 \<le> i \<Longrightarrow> i < int (length xs) \<Longrightarrow> py_set xs i v = Inr (xs[nat i := v])"
  by (simp add: py_set_def py_indice_def)

lemma leer_dentro:
  assumes "bien_formada filas cols m" and "dentro filas cols f c"
  shows "leer m f c = Inr (m ! nat f ! nat c)"
proof -
  from assms have f: "0 \<le> f" "f < int (length m)" and c0: "0 \<le> c" "c < cols"
    by (auto simp: bien_formada_def dentro_def)
  then have "m ! nat f \<in> set m" by simp
  with assms(1) c0 have "c < int (length (m ! nat f))"
    by (simp add: bien_formada_def)
  with f c0 show ?thesis
    by (simp add: leer_def py_get_dentro)
qed


lemma asignar_dentro:
  assumes "bien_formada filas cols m" and "dentro filas cols f c"
  shows "asignar m f c v = Inr (m[nat f := (m ! nat f)[nat c := v]])"
proof -
  from assms have f: "0 \<le> f" "f < int (length m)" and c0: "0 \<le> c" "c < cols"
    by (auto simp: bien_formada_def dentro_def)
  then have "m ! nat f \<in> set m" by simp
  with assms(1) c0 have "c < int (length (m ! nat f))"
    by (simp add: bien_formada_def)
  with f c0 show ?thesis
    by (simp add: asignar_def py_get_dentro py_set_dentro)
qed

lemma bien_formada_update:
  assumes "bien_formada filas cols m"
  shows "bien_formada filas cols (m[i := (m ! i)[j := v]])"
proof (cases "i < length m")
  case False
  then have "m[i := (m ! i)[j := v]] = m" by (simp add: list_update_beyond)
  with assms show ?thesis by simp
next
  case True
  then have "m ! i \<in> set m" by simp
  with assms have len: "length ((m ! i)[j := v]) = nat cols"
    unfolding bien_formada_def by simp
  have "set (m[i := (m ! i)[j := v]]) \<subseteq> insert ((m ! i)[j := v]) (set m)"
    by (rule set_update_subset_insert)
  with assms len show ?thesis
    unfolding bien_formada_def by auto
qed

lemma bien_formada_inicial: "bien_formada filas cols (replicate (nat filas) (replicate (nat cols) W))"
  by (simp add: bien_formada_def)

lemma nth_update2:
  assumes "bien_formada filas cols m" and "dentro filas cols f c" and "dentro filas cols f' c'"
  shows "m[nat f := (m ! nat f)[nat c := v]] ! nat f' ! nat c' =
         (if f' = f \<and> c' = c then v else m ! nat f' ! nat c')"
proof -
  from assms have f: "nat f < length m" "nat f' < length m" "0 \<le> f" "0 \<le> f'" "0 \<le> c" "0 \<le> c'"
     and c: "nat c < nat cols" "nat c' < nat cols"
    by (auto simp: bien_formada_def dentro_def)
  then have "m ! nat f \<in> set m" by simp
  with assms(1) have len: "length (m ! nat f) = nat cols" by (simp add: bien_formada_def)
  show ?thesis
  proof (cases "f' = f")
    case True
    with f c len show ?thesis by (auto simp: nth_list_update)
  next
    case False
    with f have "nat f' \<noteq> nat f" by simp
    with f False show ?thesis by (simp add: nth_list_update)
  qed
qed

subsection \<open>Ship geometry\<close>

text \<open>
  Claim C1, as amended. A \<open>Barco\<close> of length 1 gets exactly one cell, at the anchor,
  but its kind is not Submarine: the assignment to \<open>partes[-1]\<close> overwrites
  \<open>partes[0]\<close>, so the cell is a Bottom end under \<open>VERTICAL\<close> and a Right end under
  \<open>HORIZONTAL\<close>. The single cell of kind Submarine at the anchor is what
  \<open>Submarino\<close> builds, which takes no orientation.
\<close>
theorem C1_longitud_uno:
  "construir_partes_barco 1 VERTICAL (r, c) = Inr [Some \<lparr>fila = r, columna = c, tipo = B\<rparr>] \<and>
   construir_partes_barco 1 HORIZONTAL (r, c) = Inr [Some \<lparr>fila = r, columna = c, tipo = R\<rparr>] \<and>
   partes (Submarino_init (r, c)) = [\<lparr>fila = r, columna = c, tipo = C\<rparr>]"
  by (simp add: construir_partes_barco_def py_set_def py_indice_def Submarino_init_def)

text \<open>The amended claim C1 at the anchor (2, 3).\<close>
theorem C1_longitud_uno_witness:
  "construir_partes_barco 1 VERTICAL (2, 3) = Inr [Some \<lparr>fila = 2, columna = 3, tipo = B\<rparr>] \<and>
   construir_partes_barco 1 HORIZONTAL (2, 3) = Inr [Some \<lparr>fila = 2, columna = 3, tipo = R\<rparr>] \<and>
   partes (Submarino_init (2, 3)) = [\<lparr>fila = 2, columna = 3, tipo = C\<rparr>]"
  using C1_longitud_uno [of 2 3] by simp

text \<open>
  Claim C1 as stated fails: the vertical \<open>Barco\<close> of length 1 at (0, 0) does not
  consist of a Submarine cell.
\<close>
theorem C1_counterexample:
  "construir_partes_barco 1 VERTICAL (0, 0) \<noteq> Inr [Some \<lparr>fila = 0, columna = 0, tipo = C\<rparr>]"
  by (simp add: construir_partes_barco_def py_set_def py_indice_def)

lemma bucle_medios_ok:
  assumes "\<forall>i \<in> set idx. 0 \<le> i \<and> i < int (length ps)"
  shows "\<exists>ps'. bucle_medios mk idx ps = Inr ps' \<and> length ps' = length ps \<and>
           (\<forall>k < length ps. ps' ! k = (if int k \<in> set idx then Some (mk (int k)) else ps ! k))"
  using assms
proof (induction idx arbitrary: ps)
  case Nil
  then show ?case by simp
next
  case (Cons i resto)
  let ?ps1 = "ps[nat i := Some (mk i)]"
  from Cons.prems have i: "0 \<le> i" "i < int (length ps)" by simp_all
  from Cons.prems have "\<forall>j \<in> set resto. 0 \<le> j \<and> j < int (length ?ps1)" by simp
  from Cons.IH[OF this] obtain ps' where
    ps': "bucle_medios mk resto ?ps1 = Inr ps'" "length ps' = length ?ps1"
         "\<forall>k < length ?ps1. ps' ! k = (if int k \<in> set resto then Some (mk (int k)) else ?ps1 ! k)"
    by blast
  have "bucle_medios mk (i # resto) ps = Inr ps'"
    using i ps'(1) by (simp add: py_set_dentro)
  moreover have "ps' ! k = (if int k \<in> set (i # resto) then Some (mk (int k)) else ps ! k)"
    if "k < length ps" for k
  proof (cases "int k = i")
    case True
    with that i ps'(3) show ?thesis by auto
  next
    case False
    then have "k \<noteq> nat i" using i by auto
    with that False ps'(3) show ?thesis by auto
  qed
  ultimately show ?case using ps'(2) by auto
qed

lemma extremos_y_medios:
  assumes n: "2 \<le> n"
  shows "\<exists>ps. (case py_set (replicate (nat n) None) 0 (Some a) of
                  Inl e \<Rightarrow> Inl e
                | Inr ps1 \<Rightarrow>
                    (case py_set ps1 (- 1) (Some b) of
                       Inl e \<Rightarrow> Inl e
                     | Inr ps2 \<Rightarrow> bucle_medios mk [1..n - 2] ps2)) = Inr ps \<and>
              length ps = nat n \<and> ps ! 0 = Some a \<and> ps ! nat (n - 1) = Some b \<and>
              (\<forall>i. 1 \<le> i \<and> i \<le> n - 2 \<longrightarrow> ps ! nat i = Some (mk i))"
proof -
  let ?ps0 = "replicate (nat n) (None :: Celda option)"
  let ?ps1 = "?ps0[0 := Some a]"
  let ?ps2 = "?ps1[nat (n - 1) := Some b]"
  have s1: "py_set ?ps0 0 (Some a) = Inr ?ps1"
    using n by (simp add: py_set_def py_indice_def)
  have s2: "py_set ?ps1 (- 1) (Some b) = Inr ?ps2"
    using n by (simp add: py_set_def py_indice_def nat_diff_distrib)
  have "\<forall>i \<in> set [1..n - 2]. 0 \<le> i \<and> i < int (length ?ps2)"
    using n by simp
  from bucle_medios_ok[OF this, of mk] obtain ps where
    ps: "bucle_medios mk [1..n - 2] ?ps2 = Inr ps" "length ps = length ?ps2"
        "\<forall>k < length ?ps2. ps ! k = (if int k \<in> set [1..n - 2] then Some (mk (int k)) else ?ps2 ! k)"
    by blast
  have len: "length ?ps2 = nat n" by simp
  have p0: "ps ! 0 = Some a"
  proof -
    have "ps ! 0 = ?ps2 ! 0" using ps(3) n len by simp
    also have "\<dots> = Some a" using n by (simp add: nth_list_update)
    finally show ?thesis .
  qed
  have pl: "ps ! nat (n - 1) = Some b"
  proof -
    have "nat (n - 1) < length ?ps2" using n by simp
    with ps(3) have "ps ! nat (n - 1) = ?ps2 ! nat (n - 1)" using n by simp
    also have "\<dots> = Some b" using n by (simp add: nth_list_update)
    finally show ?thesis .
  qed
  have pm: "ps ! nat i = Some (mk i)" if "1 \<le> i \<and> i \<le> n - 2" for i
  proof -
    from that n have "nat i < length ?ps2" by simp
    with ps(3) have "ps ! nat i =
        (if int (nat i) \<in> set [1..n - 2] then Some (mk (int (nat i))) else ?ps2 ! nat i)"
      by blast
    with that show ?thesis by simp
  qed
  show ?thesis
    using s1 s2 ps(1) ps(2) len p0 pl pm by (intro exI[of _ ps]) simp
qed

text \<open>
  Claim C8. For a length \<open>n \<ge> 2\<close> and anchor \<open>(r, c)\<close> the builder returns exactly
  \<open>n\<close> cells, every slot filled. Under \<open>VERTICAL\<close> the first is a Top end at
  \<open>(r, c)\<close>, the last a Bottom end at \<open>(r + n - 1, c)\<close>, and the cell at each index
  \<open>i\<close> with \<open>1 \<le> i \<le> n - 2\<close> is a Middle at \<open>(r + i, c)\<close>. Under \<open>HORIZONTAL\<close>
  the first is a Left end at \<open>(r, c)\<close>, the last a Right end at \<open>(r, c + n - 1)\<close>, and
  the interior cells are Middle at \<open>(r, c + i)\<close>.
\<close>
theorem C8_partes_barco:
  assumes "2 \<le> n"
  shows "(\<exists>ps. construir_partes_barco n VERTICAL (r, c) = Inr ps \<and> length ps = nat n \<and>
              ps ! 0 = Some \<lparr>fila = r, columna = c, tipo = T\<rparr> \<and>
              ps ! nat (n - 1) = Some \<lparr>fila = r + n - 1, columna = c, tipo = B\<rparr> \<and>
              (\<forall>i. 1 \<le> i \<and> i \<le> n - 2 \<longrightarrow>
                 ps ! nat i = Some \<lparr>fila = r + i, columna = c, tipo = M\<rparr>)) \<and>
         (\<exists>ps. construir_partes_barco n HORIZONTAL (r, c) = Inr ps \<and> length ps = nat n \<and>
              ps ! 0 = Some \<lparr>fila = r, columna = c, tipo = L\<rparr> \<and>
              ps ! nat (n - 1) = Some \<lparr>fila = r, columna = c + n - 1, tipo = R\<rparr> \<and>
              (\<forall>i. 1 \<le> i \<and> i \<le> n - 2 \<longrightarrow>
                 ps ! nat i = Some \<lparr>fila = r, columna = c + i, tipo = M\<rparr>))"
proof
  show "\<exists>ps. construir_partes_barco n VERTICAL (r, c) = Inr ps \<and> length ps = nat n \<and>
              ps ! 0 = Some \<lparr>fila = r, columna = c, tipo = T\<rparr> \<and>
              ps ! nat (n - 1) = Some \<lparr>fila = r + n - 1, columna = c, tipo = B\<rparr> \<and>
              (\<forall>i. 1 \<le> i \<and> i \<le> n - 2 \<longrightarrow>
                 ps ! nat i = Some \<lparr>fila = r + i, columna = c, tipo = M\<rparr>)"
    using extremos_y_medios[OF assms, where a = "\<lparr>fila = r, columna = c, tipo = T\<rparr>"
            and b = "\<lparr>fila = r + n - 1, columna = c, tipo = B\<rparr>"
            and mk = "\<lambda>i. \<lparr>fila = r + i, columna = c, tipo = M\<rparr>"]
    by (simp add: construir_partes_barco_def)
next
  show "\<exists>ps. construir_partes_barco n HORIZONTAL (r, c) = Inr ps \<and> length ps = nat n \<and>
              ps ! 0 = Some \<lparr>fila = r, columna = c, tipo = L\<rparr> \<and>
              ps ! nat (n - 1) = Some \<lparr>fila = r, columna = c + n - 1, tipo = R\<rparr> \<and>
              (\<forall>i. 1 \<le> i \<and> i \<le> n - 2 \<longrightarrow>
                 ps ! nat i = Some \<lparr>fila = r, columna = c + i, tipo = M\<rparr>)"
    using extremos_y_medios[OF assms, where a = "\<lparr>fila = r, columna = c, tipo = L\<rparr>"
            and b = "\<lparr>fila = r, columna = c + n - 1, tipo = R\<rparr>"
            and mk = "\<lambda>i. \<lparr>fila = r, columna = c + i, tipo = M\<rparr>"]
    by (simp add: construir_partes_barco_def)
qed

text \<open>The vertical ship of length 3 anchored at (4, 5).\<close>
theorem C8_partes_barco_witness:
  "(2::int) \<le> 3 \<and>
   (\<exists>ps. construir_partes_barco 3 VERTICAL (4, 5) = Inr ps \<and> length ps = 3 \<and>
         ps ! 0 = Some \<lparr>fila = 4, columna = 5, tipo = T\<rparr> \<and>
         ps ! 1 = Some \<lparr>fila = 5, columna = 5, tipo = M\<rparr> \<and>
         ps ! 2 = Some \<lparr>fila = 6, columna = 5, tipo = B\<rparr>)"
proof -
  have h: "(2::int) \<le> 3" by simp
  from C8_partes_barco [OF h, of 4 5] obtain ps where
    ps: "construir_partes_barco 3 VERTICAL (4, 5) = Inr ps" "length ps = nat 3"
        "ps ! 0 = Some \<lparr>fila = 4, columna = 5, tipo = T\<rparr>"
        "ps ! nat (3 - 1) = Some \<lparr>fila = 4 + 3 - 1, columna = 5, tipo = B\<rparr>"
        "\<forall>i. 1 \<le> i \<and> i \<le> 3 - 2 \<longrightarrow> ps ! nat i = Some \<lparr>fila = 4 + i, columna = 5, tipo = M\<rparr>"
    by blast
  have "(1::int) \<le> 1 \<and> (1::int) \<le> 3 - 2" by simp
  with ps(5) have "ps ! nat 1 = Some \<lparr>fila = 4 + 1, columna = 5, tipo = M\<rparr>" by blast
  with ps(1-4) h show ?thesis by (simp add: numeral_2_eq_2)
qed

subsection \<open>Grid construction\<close>

lemma pintar_partes_total:
  assumes "bien_formada filas cols m"
  shows "\<exists>m'. pintar_partes filas cols cs m = Inr m' \<and> bien_formada filas cols m' \<and>
           (\<forall>f c. dentro filas cols f c \<longrightarrow>
              m' ! nat f ! nat c =
                (if reclaman cs f c = [] then m ! nat f ! nat c else tipo (last (reclaman cs f c))))"
  using assms
proof (induction cs arbitrary: m)
  case Nil
  then show ?case by (simp add: reclaman_def)
next
  case (Cons celda resto)
  show ?case
  proof (cases "dentro filas cols (fila celda) (columna celda)")
    case True
    let ?m1 = "m[nat (fila celda) := (m ! nat (fila celda))[nat (columna celda) := tipo celda]]"
    have bf: "bien_formada filas cols ?m1" using Cons.prems by (rule bien_formada_update)
    from Cons.IH[OF bf] obtain m' where
      m': "pintar_partes filas cols resto ?m1 = Inr m'" "bien_formada filas cols m'"
      "\<forall>f c. dentro filas cols f c \<longrightarrow> m' ! nat f ! nat c =
        (if reclaman resto f c = [] then ?m1 ! nat f ! nat c else tipo (last (reclaman resto f c)))"
      by blast
    have "pintar_partes filas cols (celda # resto) m = Inr m'"
      using True m'(1) by (simp add: asignar_dentro[OF Cons.prems True])
    moreover have "m' ! nat f ! nat c =
        (if reclaman (celda # resto) f c = [] then m ! nat f ! nat c
         else tipo (last (reclaman (celda # resto) f c)))" if d: "dentro filas cols f c" for f c
      using m'(3) d nth_update2[OF Cons.prems True d, of "tipo celda"]
      by (auto simp: reclaman_def)
    ultimately show ?thesis using m'(2) by blast
  next
    case False
    from Cons.IH[OF Cons.prems] obtain m' where
      m': "pintar_partes filas cols resto m = Inr m'" "bien_formada filas cols m'"
      "\<forall>f c. dentro filas cols f c \<longrightarrow> m' ! nat f ! nat c =
        (if reclaman resto f c = [] then m ! nat f ! nat c else tipo (last (reclaman resto f c)))"
      by blast
    have "pintar_partes filas cols (celda # resto) m = Inr m'"
      using False m'(1) by simp
    moreover have "reclaman (celda # resto) f c = reclaman resto f c" if d: "dentro filas cols f c" for f c
      using False d by (auto simp: reclaman_def)
    ultimately show ?thesis using m'(2,3) by auto
  qed
qed

lemma pintar_partes_append:
  "pintar_partes filas cols (xs @ ys) m =
     (case pintar_partes filas cols xs m of Inl e \<Rightarrow> Inl e | Inr m' \<Rightarrow> pintar_partes filas cols ys m')"
  by (induction xs arbitrary: m) (auto split: sum.splits)

lemma pintar_flota_concat:
  "pintar_flota filas cols fl m = pintar_partes filas cols (concat (map partes fl)) m"
  by (induction fl arbitrary: m) (auto simp: pintar_partes_append split: sum.splits)

lemma construir_matriz_total:
  "\<exists>m. construir_matriz (filas, cols) fl = Inr m \<and> bien_formada filas cols m \<and>
       (\<forall>f c. dentro filas cols f c \<longrightarrow> m ! nat f ! nat c = ultima_pintada (celdas_flota fl) f c)"
proof -
  let ?m0 = "replicate (nat filas) (replicate (nat cols) W)"
  from pintar_partes_total[OF bien_formada_inicial, of filas cols "celdas_flota fl"]
  obtain m where m: "pintar_partes filas cols (celdas_flota fl) ?m0 = Inr m"
     "bien_formada filas cols m"
     "\<forall>f c. dentro filas cols f c \<longrightarrow> m ! nat f ! nat c =
        (if reclaman (celdas_flota fl) f c = [] then ?m0 ! nat f ! nat c
         else tipo (last (reclaman (celdas_flota fl) f c)))"
    by blast
  have "?m0 ! nat f ! nat c = W" if "dentro filas cols f c" for f c
    using that by (simp add: dentro_def)
  with m(3) have "\<forall>f c. dentro filas cols f c \<longrightarrow>
      m ! nat f ! nat c = ultima_pintada (celdas_flota fl) f c"
    by (simp add: ultima_pintada_def)
  moreover have "construir_matriz (filas, cols) fl = Inr m"
    using m(1) by (simp add: construir_matriz_def pintar_flota_concat celdas_flota_def)
  ultimately show ?thesis using m(2) by blast
qed

lemma pintar_partes_filtro:
  "pintar_partes filas cols (filter (\<lambda>p. dentro filas cols (fila p) (columna p)) cs) m =
   pintar_partes filas cols cs m"
  by (induction cs arbitrary: m) (auto split: sum.splits)

lemma pintar_flota_solo_dentro:
  "pintar_flota filas cols (map (solo_dentro filas cols) fl) m = pintar_flota filas cols fl m"
  by (induction fl arbitrary: m) (auto simp: solo_dentro_def pintar_partes_filtro split: sum.splits)

text \<open>
  Claim C4. For every pair of dimensions (positive or not) and every fleet,
  \<open>construir_matriz\<close> returns a matrix and never raises. The matrix has \<open>filas\<close>
  rows of \<open>cols\<close> cells; every position inside the bounds holds the kind declared by
  the last cell, in fleet order and then part order, that claims it, and Water when no
  cell claims it. Cells outside the bounds are skipped: the fleet with those cells
  removed paints the same matrix.
\<close>
theorem C4_construir_matriz:
  "\<exists>m. construir_matriz (filas, cols) fl = Inr m \<and>
       length m = nat filas \<and> (\<forall>fila_f \<in> set m. length fila_f = nat cols) \<and>
       (\<forall>f c. dentro filas cols f c \<longrightarrow>
          m ! nat f ! nat c = ultima_pintada (celdas_flota fl) f c) \<and>
       construir_matriz (filas, cols) (map (solo_dentro filas cols) fl) = Inr m"
proof -
  from construir_matriz_total[of filas cols fl] obtain m where
    m: "construir_matriz (filas, cols) fl = Inr m" "bien_formada filas cols m"
       "\<forall>f c. dentro filas cols f c \<longrightarrow> m ! nat f ! nat c = ultima_pintada (celdas_flota fl) f c"
    by blast
  have "construir_matriz (filas, cols) (map (solo_dentro filas cols) fl) = Inr m"
    using m(1) by (simp add: construir_matriz_def pintar_flota_solo_dentro)
  with m show ?thesis unfolding bien_formada_def by blast
qed

text \<open>
  On a 2 x 2 board with one submarine at (0, 0) and one at (5, 5), outside the board:
  the submarine kind is at (0, 0), and (1, 1) is water.
\<close>
theorem C4_construir_matriz_witness:
  "dentro 2 2 0 0 \<and> dentro 2 2 1 1 \<and>
   (\<exists>m. construir_matriz (2, 2) [Submarino_init (0, 0), Submarino_init (5, 5)] = Inr m \<and>
        length m = 2 \<and> m ! 0 ! 0 = C \<and> m ! 1 ! 1 = W)"
proof -
  let ?fl = "[Submarino_init (0, 0), Submarino_init (5, 5)]"
  have d: "dentro 2 2 0 0" "dentro 2 2 1 1" by (simp_all add: dentro_def)
  from C4_construir_matriz [of 2 2 ?fl] obtain m where
    m: "construir_matriz (2, 2) ?fl = Inr m" "length m = nat 2"
       "\<forall>f c. dentro 2 2 f c \<longrightarrow> m ! nat f ! nat c = ultima_pintada (celdas_flota ?fl) f c"
    by blast
  from m(3) d(1) have "m ! nat 0 ! nat 0 = ultima_pintada (celdas_flota ?fl) 0 0" by blast
  then have a: "m ! 0 ! 0 = C"
    by (simp add: ultima_pintada_def reclaman_def celdas_flota_def Submarino_init_def)
  from m(3) d(2) have "m ! nat 1 ! nat 1 = ultima_pintada (celdas_flota ?fl) 1 1" by blast
  then have b: "m ! 1 ! 1 = W"
    by (simp add: ultima_pintada_def reclaman_def celdas_flota_def Submarino_init_def)
  from m(1,2) a b d show ?thesis by simp
qed

lemma Tablero_init_campos:
  assumes "Tablero_init nF nC fl ps pf pc = Inr tab"
  shows "tamano_tablero tab = (nF, nC)" and "flota tab = fl" and "pistas tab = ps"
    and "pistas_filas tab = pf" and "pistas_cols tab = pc"
    and "construir_matriz (nF, nC) fl = Inr (matriz tab)"
  using assms by (auto simp: Tablero_init_def split: sum.splits)

lemma Tablero_init_matriz:
  assumes "Tablero_init nF nC fl ps pf pc = Inr tab"
  shows "bien_formada nF nC (matriz tab)"
    and "dentro nF nC f c \<Longrightarrow> matriz tab ! nat f ! nat c = ultima_pintada (celdas_flota fl) f c"
  using construir_matriz_total[of nF nC fl] Tablero_init_campos(6)[OF assms] by auto

lemma Tablero_init_total: "\<exists>tab. Tablero_init nF nC fl ps pf pc = Inr tab"
  using construir_matriz_total[of nF nC fl] by (auto simp: Tablero_init_def)

lemma tablero_2x2_init:
  "Tablero_init 2 2 [Submarino_init (0, 0)] [] [1, 0] [1, 0] = Inr tablero_2x2"
  by (simp add: Tablero_init_def construir_matriz_def asignar_def py_get_def py_set_def
      py_indice_def dentro_def Submarino_init_def tablero_2x2_def numeral_2_eq_2)




subsection \<open>Checks of one target\<close>

lemma limites_bucle_iff:
  "limites_bucle filas cols ps = (\<forall>p \<in> set ps. dentro filas cols (fila p) (columna p))"
  by (induction ps) auto

lemma integridad_bucle_lecturas:
  "(f, c) \<in> set (fst (integridad_bucle filas cols m ps)) \<Longrightarrow> dentro filas cols f c"
  by (induction ps) (auto split: if_splits sum.splits prod.splits)

lemma integridad_bucle_resultado:
  assumes "bien_formada filas cols m"
  shows "snd (integridad_bucle filas cols m ps) =
           Inr (\<forall>p \<in> set ps. dentro filas cols (fila p) (columna p) \<and> concuerda m p)"
proof (induction ps)
  case Nil
  show ?case by simp
next
  case (Cons parte resto)
  show ?case
  proof (cases "dentro filas cols (fila parte) (columna parte)")
    case False
    then show ?thesis by simp
  next
    case True
    from leer_dentro[OF assms True] Cons.IH True show ?thesis
      by (simp add: concuerda_def case_prod_beta)
  qed
qed

lemma vecinos_bucle_lecturas:
  "(f, c) \<in> set (fst (vecinos_bucle filas cols m mis parte ds)) \<Longrightarrow> dentro filas cols f c"
  by (induction ds) (auto simp: Let_def split: if_splits sum.splits prod.splits)

lemma vecinos_bucle_resultado:
  assumes "bien_formada filas cols m"
  shows "snd (vecinos_bucle filas cols m mis parte ds) =
           Inr (\<forall>d \<in> set ds. vecino_libre filas cols m mis parte d)"
proof (induction ds)
  case Nil
  show ?case by simp
next
  case (Cons d resto)
  show ?case
  proof (cases "dentro filas cols (fila parte + fst d) (columna parte + snd d)")
    case False
    with Cons.IH show ?thesis by (simp add: vecino_libre_def)
  next
    case True
    from leer_dentro[OF assms True] Cons.IH True show ?thesis
      by (simp add: vecino_libre_def Let_def case_prod_beta)
  qed
qed

lemma espaciado_bucle_lecturas:
  "(f, c) \<in> set (fst (espaciado_bucle filas cols m mis ps)) \<Longrightarrow> dentro filas cols f c"
proof (induction ps)
  case Nil
  then show ?case by simp
next
  case (Cons parte resto)
  then show ?case
    using vecinos_bucle_lecturas[of f c filas cols m mis parte deltas]
    by (auto split: if_splits sum.splits prod.splits bool.splits)
qed

lemma espaciado_bucle_resultado:
  assumes "bien_formada filas cols m"
  shows "snd (espaciado_bucle filas cols m mis ps) =
           Inr (\<forall>p \<in> set ps. dentro filas cols (fila p) (columna p) \<longrightarrow>
                  (\<forall>d \<in> set deltas. vecino_libre filas cols m mis p d))"
proof (induction ps)
  case Nil
  show ?case by simp
next
  case (Cons parte resto)
  show ?case
  proof (cases "dentro filas cols (fila parte) (columna parte)")
    case False
    with Cons.IH show ?thesis by simp
  next
    case True
    from vecinos_bucle_resultado[OF assms, of mis parte deltas] Cons.IH True show ?thesis
      by (cases "vecinos_bucle filas cols m mis parte deltas")
         (auto split: prod.splits sum.splits bool.splits)
  qed
qed

lemma validar_limites_iff:
  assumes "tamano_tablero tab = (nF, nC)"
  shows "validar_limites obj tab = (\<forall>p \<in> set (partes obj). dentro nF nC (fila p) (columna p))"
  using assms by (simp add: validar_limites_def limites_bucle_iff)

lemma validar_integridad_iff:
  assumes "tamano_tablero tab = (nF, nC)" and "bien_formada nF nC (matriz tab)"
  shows "validar_integridad obj tab =
           Inr (\<forall>p \<in> set (partes obj). dentro nF nC (fila p) (columna p) \<and> concuerda (matriz tab) p)"
  using assms integridad_bucle_resultado[OF assms(2), of "partes obj"]
  by (simp add: validar_integridad_def integridad_lecturas_def)

lemma validar_espaciado_iff:
  assumes "tamano_tablero tab = (nF, nC)" and "bien_formada nF nC (matriz tab)"
  shows "validar_espaciado obj tab =
           Inr (\<forall>p \<in> set (partes obj). dentro nF nC (fila p) (columna p) \<longrightarrow>
                  (\<forall>d \<in> set deltas. vecino_libre nF nC (matriz tab) (mis_coordenadas obj) p d))"
  using assms espaciado_bucle_resultado[OF assms(2), of "mis_coordenadas obj" "partes obj"]
  by (simp add: validar_espaciado_def espaciado_lecturas_def)

lemma validar_restricciones_iff:
  assumes "tamano_tablero tab = (nF, nC)" and "bien_formada nF nC (matriz tab)"
  shows "validar_restricciones obj tab =
           Inr (validar_limites obj tab \<and> validar_integridad obj tab = Inr True \<and>
                validar_espaciado obj tab = Inr True)"
  using validar_integridad_iff[OF assms, of obj] validar_espaciado_iff[OF assms, of obj]
  by (simp add: validar_restricciones_def)

lemma invalidos_bucle_filtro:
  assumes "tamano_tablero tab = (nF, nC)" and "bien_formada nF nC (matriz tab)"
  shows "invalidos_bucle tab xs = Inr (filter (\<lambda>barco. validar_restricciones barco tab = Inr False) xs)"
proof (induction xs)
  case Nil
  show ?case by simp
next
  case (Cons barco resto)
  with validar_restricciones_iff[OF assms, of barco] show ?case by simp
qed

text \<open>
  Claim C5. On a constructed board, for every target: if the bounds check fails, or
  equivalently some declared cell lies outside the bounds, \<open>validar_integridad\<close>
  returns false; every position at which it reads the grid is inside the bounds; and when
  all declared cells are inside, it returns true exactly when the grid holds, at the
  position of every declared cell, the kind that the cell declares. It never raises.
\<close>
theorem C5_validar_integridad:
  assumes "Tablero_init nF nC fl ps pf pc = Inr tab"
  shows "(\<not> validar_limites obj tab \<longrightarrow> validar_integridad obj tab = Inr False) \<and>
         ((\<exists>p \<in> set (partes obj). \<not> dentro nF nC (fila p) (columna p)) \<longrightarrow>
            validar_integridad obj tab = Inr False) \<and>
         (\<forall>l \<in> set (fst (integridad_lecturas obj tab)). dentro nF nC (fst l) (snd l)) \<and>
         ((\<forall>p \<in> set (partes obj). dentro nF nC (fila p) (columna p)) \<longrightarrow>
            validar_integridad obj tab =
              Inr (\<forall>p \<in> set (partes obj). matriz tab ! nat (fila p) ! nat (columna p) = tipo p))"
proof -
  note tam = Tablero_init_campos(1)[OF assms]
  note bf = Tablero_init_matriz(1)[OF assms]
  note vi = validar_integridad_iff[OF tam bf, of obj]
  have a: "\<not> validar_limites obj tab \<longrightarrow> validar_integridad obj tab = Inr False"
    using vi validar_limites_iff[OF tam, of obj] by auto
  have b: "(\<exists>p \<in> set (partes obj). \<not> dentro nF nC (fila p) (columna p)) \<longrightarrow>
            validar_integridad obj tab = Inr False"
    using vi by auto
  have c: "\<forall>l \<in> set (fst (integridad_lecturas obj tab)). dentro nF nC (fst l) (snd l)"
    using integridad_bucle_lecturas[of _ _ nF nC "matriz tab" "partes obj"] tam
    by (auto simp: integridad_lecturas_def)
  have d: "(\<forall>p \<in> set (partes obj). dentro nF nC (fila p) (columna p)) \<longrightarrow>
            validar_integridad obj tab =
              Inr (\<forall>p \<in> set (partes obj). matriz tab ! nat (fila p) ! nat (columna p) = tipo p)"
    using vi by (auto simp: concuerda_def)
  from a b c d show ?thesis by blast
qed

text \<open>
  On the 2 x 2 board the submarine at (0, 0) passes the integrity check and a submarine
  declared at (0, 2), outside the board, fails it.
\<close>
theorem C5_validar_integridad_witness:
  "Tablero_init 2 2 [Submarino_init (0, 0)] [] [1, 0] [1, 0] = Inr tablero_2x2 \<and>
   validar_integridad (Submarino_init (0, 0)) tablero_2x2 = Inr True \<and>
   validar_integridad (Submarino_init (0, 2)) tablero_2x2 = Inr False"
proof -
  note h = tablero_2x2_init
  have "\<forall>p \<in> set (partes (Submarino_init (0, 0))). dentro 2 2 (fila p) (columna p)"
    by (simp add: Submarino_init_def dentro_def)
  with C5_validar_integridad [OF h, of "Submarino_init (0, 0)"]
  have a: "validar_integridad (Submarino_init (0, 0)) tablero_2x2 = Inr True"
    by (simp add: Submarino_init_def tablero_2x2_def)
  have "\<exists>p \<in> set (partes (Submarino_init (0, 2))). \<not> dentro 2 2 (fila p) (columna p)"
    by (simp add: Submarino_init_def dentro_def)
  with C5_validar_integridad [OF h, of "Submarino_init (0, 2)"]
  have b: "validar_integridad (Submarino_init (0, 2)) tablero_2x2 = Inr False"
    by blast
  from h a b show ?thesis by simp
qed

lemma deltas_moore:
  "(\<forall>d \<in> set deltas. P d) =
   (\<forall>df \<in> {- 1, 0, 1}. \<forall>dc \<in> {- 1, 0, 1}. (df, dc) \<noteq> (0, 0) \<longrightarrow> P (df, dc))"
  by (simp add: deltas_def)

text \<open>
  Claim C6. On a constructed board, \<open>validar_espaciado\<close> returns (without raising) true
  exactly when, for every declared cell inside the bounds and each of the eight offsets of
  the Moore neighbourhood, the neighbour holds Water whenever it is inside the grid and
  is not one of the target's own declared positions. Neighbours outside the grid and
  declared cells outside the grid impose nothing.
\<close>
theorem C6_validar_espaciado:
  assumes "Tablero_init nF nC fl ps pf pc = Inr tab"
  shows "validar_espaciado obj tab =
           Inr (\<forall>p \<in> set (partes obj). dentro nF nC (fila p) (columna p) \<longrightarrow>
                  (\<forall>df \<in> {- 1, 0, 1}. \<forall>dc \<in> {- 1, 0, 1}. (df, dc) \<noteq> (0, 0) \<longrightarrow>
                     dentro nF nC (fila p + df) (columna p + dc) \<and>
                     (fila p + df, columna p + dc) \<notin> (\<lambda>q. (fila q, columna q)) ` set (partes obj) \<longrightarrow>
                     matriz tab ! nat (fila p + df) ! nat (columna p + dc) = W))"
proof -
  note tam = Tablero_init_campos(1)[OF assms]
  note bf = Tablero_init_matriz(1)[OF assms]
  show ?thesis
    unfolding validar_espaciado_iff[OF tam bf, of obj] deltas_moore
    by (simp add: vecino_libre_def mis_coordenadas_def)
qed

text \<open>On the 2 x 2 board the submarine at (0, 0) has only water around it.\<close>
theorem C6_validar_espaciado_witness:
  "Tablero_init 2 2 [Submarino_init (0, 0)] [] [1, 0] [1, 0] = Inr tablero_2x2 \<and>
   validar_espaciado (Submarino_init (0, 0)) tablero_2x2 = Inr True"
proof -
  note h = tablero_2x2_init
  from C6_validar_espaciado [OF h, of "Submarino_init (0, 0)"]
  have "validar_espaciado (Submarino_init (0, 0)) tablero_2x2 = Inr True"
    by (simp add: Submarino_init_def tablero_2x2_def dentro_def)
  with h show ?thesis by simp
qed

text \<open>
  Claim C7. On a constructed board, \<open>validar_restricciones\<close> returns true exactly when
  the bounds, integrity and spacing checks all return true, and
  \<open>obtener_barcos_invalidos\<close> returns the targets of the fleet on which
  \<open>validar_restricciones\<close> returns false, every target tested, in fleet order.
\<close>
theorem C7_validar_restricciones:
  assumes "Tablero_init nF nC fl ps pf pc = Inr tab"
  shows "validar_restricciones obj tab =
           Inr (validar_limites obj tab \<and> validar_integridad obj tab = Inr True \<and>
                validar_espaciado obj tab = Inr True) \<and>
         obtener_barcos_invalidos tab =
           Inr (filter (\<lambda>barco. validar_restricciones barco tab = Inr False) fl)"
proof -
  note tam = Tablero_init_campos(1)[OF assms]
  note bf = Tablero_init_matriz(1)[OF assms]
  show ?thesis
    using validar_restricciones_iff[OF tam bf, of obj] invalidos_bucle_filtro[OF tam bf, of fl]
      Tablero_init_campos(2)[OF assms]
    by (simp add: obtener_barcos_invalidos_def)
qed

text \<open>On the 2 x 2 board the submarine is valid and the fleet has no invalid target.\<close>
theorem C7_validar_restricciones_witness:
  "Tablero_init 2 2 [Submarino_init (0, 0)] [] [1, 0] [1, 0] = Inr tablero_2x2 \<and>
   validar_restricciones (Submarino_init (0, 0)) tablero_2x2 = Inr True \<and>
   obtener_barcos_invalidos tablero_2x2 = Inr []"
proof -
  note h = tablero_2x2_init
  have v: "validar_restricciones (Submarino_init (0, 0)) tablero_2x2 = Inr True"
    by (simp add: validar_restricciones_def validar_limites_def validar_integridad_def
        integridad_lecturas_def validar_espaciado_def espaciado_lecturas_def
        mis_coordenadas_def deltas_def leer_def py_get_def py_indice_def dentro_def
        Submarino_init_def tablero_2x2_def)
  from C7_validar_restricciones [OF h, of "Submarino_init (0, 0)"] v h show ?thesis
    by simp
qed






subsection \<open>Painting order and integrity\<close>






subsection \<open>Checks of the board\<close>

lemma map_nth_upto:
  assumes "length xs = nat n"
  shows "map (\<lambda>i. xs ! nat i) [0..n - 1] = xs"
proof (rule nth_equalityI)
  show "length (map (\<lambda>i. xs ! nat i) [0..n - 1]) = length xs"
    using assms by simp
next
  fix k
  assume "k < length (map (\<lambda>i. xs ! nat i) [0..n - 1])"
  then have k: "int k \<le> n - 1" by simp
  then have "[0..n - 1] ! k = 0 + int k" by (intro nth_upto) simp
  with k show "map (\<lambda>i. xs ! nat i) [0..n - 1] ! k = xs ! k" by simp
qed

lemma contar_dentro:
  assumes "bien_formada filas cols m"
    and "\<forall>p \<in> set qs. dentro filas cols (fst p) (snd p)"
  shows "contar m qs =
           Inr (int (length (filter es_barco (map (\<lambda>p. m ! nat (fst p) ! nat (snd p)) qs))))"
  using assms(2)
proof (induction qs)
  case Nil
  show ?case by simp
next
  case (Cons q resto)
  then have d: "dentro filas cols (fst q) (snd q)" by simp
  from leer_dentro[OF assms(1) d] Cons show ?case by simp
qed

lemma contar_fila:
  assumes "bien_formada filas cols m" and "0 \<le> f" and "f < filas"
  shows "contar m (map (\<lambda>c. (f, c)) [0..cols - 1]) =
           Inr (int (length (filter es_barco (m ! nat f))))"
proof -
  from assms have "m ! nat f \<in> set m" by (simp add: bien_formada_def)
  with assms(1) have len: "length (m ! nat f) = nat cols" by (simp add: bien_formada_def)
  have "\<forall>p \<in> set (map (\<lambda>c. (f, c)) [0..cols - 1]). dentro filas cols (fst p) (snd p)"
    using assms(2,3) by (auto simp: dentro_def)
  from contar_dentro[OF assms(1) this] map_nth_upto[OF len] show ?thesis
    by (simp add: comp_def)
qed

lemma contar_columna:
  assumes "bien_formada filas cols m" and "0 \<le> c" and "c < cols"
  shows "contar m (map (\<lambda>f. (f, c)) [0..filas - 1]) =
           Inr (int (length (filter (\<lambda>fila_f. es_barco (fila_f ! nat c)) m)))"
proof -
  from assms(1) have len: "length m = nat filas" by (simp add: bien_formada_def)
  have d: "\<forall>p \<in> set (map (\<lambda>f. (f, c)) [0..filas - 1]). dentro filas cols (fst p) (snd p)"
    using assms(2,3) by (auto simp: dentro_def)
  have "map (\<lambda>p. m ! nat (fst p) ! nat (snd p)) (map (\<lambda>f. (f, c)) [0..filas - 1]) =
        map (\<lambda>fila_f. fila_f ! nat c) (map (\<lambda>f. m ! nat f) [0..filas - 1])"
    by (simp add: comp_def)
  also have "\<dots> = map (\<lambda>fila_f. fila_f ! nat c) m"
    using map_nth_upto[OF len] by simp
  finally show ?thesis
    using contar_dentro[OF assms(1) d] by (simp add: filter_map comp_def)
qed

lemma cuentas_filas_iff:
  assumes "bien_formada filas cols m" and "filas \<le> int (length pf)"
    and "\<forall>f \<in> set fs. 0 \<le> f \<and> f < filas"
  shows "cuentas_filas m cols pf fs =
           Inr (\<forall>f \<in> set fs. int (length (filter es_barco (m ! nat f))) = pf ! nat f)"
  using assms(3)
proof (induction fs)
  case Nil
  show ?case by simp
next
  case (Cons f resto)
  then have f: "0 \<le> f" "f < filas" by simp_all
  with assms(2) have "py_get pf f = Inr (pf ! nat f)" by (simp add: py_get_dentro)
  with contar_fila[OF assms(1) f] Cons show ?case by simp
qed

lemma cuentas_cols_iff:
  assumes "bien_formada filas cols m" and "cols \<le> int (length pc)"
    and "\<forall>c \<in> set cs. 0 \<le> c \<and> c < cols"
  shows "cuentas_cols m filas pc cs =
           Inr (\<forall>c \<in> set cs.
                  int (length (filter (\<lambda>fila_f. es_barco (fila_f ! nat c)) m)) = pc ! nat c)"
  using assms(3)
proof (induction cs)
  case Nil
  show ?case by simp
next
  case (Cons c resto)
  then have c: "0 \<le> c" "c < cols" by simp_all
  with assms(2) have "py_get pc c = Inr (pc ! nat c)" by (simp add: py_get_dentro)
  with contar_columna[OF assms(1) c] Cons show ?case by simp
qed

text \<open>
  Claim C9. On a constructed board whose row clues are at least as many as the rows and
  whose column clues are at least as many as the columns, \<open>validar_cuentas\<close> returns
  (without raising) true exactly when, for every row index, the number of cells of that
  row whose kind is not Water equals the clue of the row and, for every column index,
  the number of cells of that column whose kind is not Water equals the clue of the
  column.
\<close>
theorem C9_validar_cuentas:
  assumes "Tablero_init nF nC fl ps pf pc = Inr tab"
    and "nF \<le> int (length pf)" and "nC \<le> int (length pc)"
  shows "validar_cuentas tab =
           Inr ((\<forall>f. 0 \<le> f \<and> f < nF \<longrightarrow>
                   int (length (filter (\<lambda>k. k \<noteq> W) (matriz tab ! nat f))) = pf ! nat f) \<and>
                (\<forall>c. 0 \<le> c \<and> c < nC \<longrightarrow>
                   int (length (filter (\<lambda>fila_f. fila_f ! nat c \<noteq> W) (matriz tab))) = pc ! nat c))"
proof -
  note tam = Tablero_init_campos(1)[OF assms(1)]
  note bf = Tablero_init_matriz(1)[OF assms(1)]
  have eb: "es_barco = (\<lambda>k. k \<noteq> W)" by (rule ext) (simp add: es_barco_def)
  have rf: "\<forall>f \<in> set [0..nF - 1]. 0 \<le> f \<and> f < nF" by simp
  have rc: "\<forall>c \<in> set [0..nC - 1]. 0 \<le> c \<and> c < nC" by simp
  have s1: "(\<forall>f \<in> set [0..nF - 1]. P f) = (\<forall>f. 0 \<le> f \<and> f < nF \<longrightarrow> P f)" for P
    by auto
  have s2: "(\<forall>c \<in> set [0..nC - 1]. P c) = (\<forall>c. 0 \<le> c \<and> c < nC \<longrightarrow> P c)" for P
    by auto
  show ?thesis
    using cuentas_filas_iff[OF bf assms(2) rf] cuentas_cols_iff[OF bf assms(3) rc]
      Tablero_init_campos(4,5)[OF assms(1)] tam
    unfolding s1 s2
    by (simp add: validar_cuentas_def eb es_barco_def)
qed

text \<open>
  The end-to-end scenario of the specification: on the 2 x 2 board with the submarine at
  (0, 0), the clues [1, 0] and [1, 0] pass the count check.
\<close>
theorem C9_validar_cuentas_witness:
  "Tablero_init 2 2 [Submarino_init (0, 0)] [] [1, 0] [1, 0] = Inr tablero_2x2 \<and>
   (2::int) \<le> int (length [1, 0 :: int]) \<and>
   validar_cuentas tablero_2x2 = Inr True"
proof -
  note h = tablero_2x2_init
  have l: "(2::int) \<le> int (length [1, 0 :: int])" by simp
  have c: "\<And>i::int. 0 \<le> i \<and> i < 2 \<longleftrightarrow> i = 0 \<or> i = 1" by auto
  from C9_validar_cuentas [OF h l l]
  have "validar_cuentas tablero_2x2 = Inr True"
    by (auto simp: tablero_2x2_def c)
  with h l show ?thesis by simp
qed







end
